theory Spec2Isabelle
  imports Complex_Main
begin

section \<open>Python values and errors\<close>

text \<open>
  The exceptions the modelled code can raise. \<open>AssertionError\<close> is what the faiss
  Python wrapper raises when the shape of an array does not fit the index.
\<close>

datatype py_error = KeyError | IndexError | AssertionError | AttributeError

text \<open>
  A metadata record is a Python \<open>dict\<close> from string keys to values of any type; the
  pipeline stores strings and integers in it. A dictionary is an association list,
  looked up with \<open>map_of\<close>.
\<close>

datatype py_value = PStr string | PInt int

type_synonym py_dict = "(string \<times> py_value) list"

section \<open>The chunker (pdf\_processor.py)\<close>

subsection \<open>Python string primitives\<close>

text \<open>
  \<open>str.isspace\<close> on one character, for the code points below 256: tab, line feed,
  vertical tab, form feed, carriage return, the separators 0x1C to 0x1F, space, 0x85
  and 0xA0.
\<close>

definition py_isspace :: "char \<Rightarrow> bool" where
  "py_isspace c =
     (let n = of_char c :: nat
      in (9 \<le> n \<and> n \<le> 13) \<or> (28 \<le> n \<and> n \<le> 32) \<or> n = 133 \<or> n = 160)"

text \<open>\<open>s.strip()\<close>: leading and trailing whitespace removed.\<close>

definition py_strip :: "string \<Rightarrow> string" where
  "py_strip s = rev (dropWhile py_isspace (rev (dropWhile py_isspace s)))"

text \<open>
  How Python adjusts a slice bound against a sequence of length \<open>n\<close>: a negative
  bound counts from the end, and the result is clamped to \<open>0..n\<close>.
\<close>

definition py_adjust :: "nat \<Rightarrow> int \<Rightarrow> nat" where
  "py_adjust n i = (if i < 0 then nat (max 0 (i + int n)) else min (nat i) n)"

text \<open>\<open>s[i:j]\<close>.\<close>

definition py_slice :: "'a list \<Rightarrow> int \<Rightarrow> int \<Rightarrow> 'a list" where
  "py_slice s i j =
     (let a = py_adjust (length s) i; b = py_adjust (length s) j
      in take (b - a) (drop a s))"

text \<open>
  The highest index \<open>k\<close> with \<open>lo \<le> k < hi\<close> and \<open>s[k] = c\<close>, or \<open>-1\<close>; the
  scan runs downwards from \<open>hi - 1\<close>.
\<close>

fun last_index :: "string \<Rightarrow> char \<Rightarrow> nat \<Rightarrow> nat \<Rightarrow> int" where
  "last_index s c lo 0 = - 1"
| "last_index s c lo (Suc k) =
     (if k < lo then - 1
      else if s ! k = c then int k
      else last_index s c lo k)"

text \<open>\<open>s.rfind(c, start, end)\<close> for a one-character needle.\<close>

definition py_rfind :: "string \<Rightarrow> char \<Rightarrow> int \<Rightarrow> int \<Rightarrow> int" where
  "py_rfind s c start end =
     last_index s c (py_adjust (length s) start) (py_adjust (length s) end)"

subsection \<open>PDFProcessor.chunk\_text\<close>

text \<open>
  The end of the chunk that starts at \<open>start\<close>: the size-based cut, moved back to just
  after the last sentence terminator of the window, or else to the last space of the
  window, when the cut is not the end of the text.
\<close>

definition chunk_end :: "string \<Rightarrow> int \<Rightarrow> int \<Rightarrow> int" where
  "chunk_end text chunk_size start =
     (let end = min (start + chunk_size) (int (length text))
      in if end < int (length text) then
           (let last_period = py_rfind text (CHR ''.'') start end;
                last_exclamation = py_rfind text (CHR ''!'') start end;
                last_question = py_rfind text (CHR ''?'') start end;
                sentence_end = max (max last_period last_exclamation) last_question
            in if sentence_end > start then sentence_end + 1
               else (let last_space = py_rfind text (CHR '' '') start end
                     in if last_space > start then last_space else end))
         else end)"

text \<open>The new start position, with the guard that forces the loop to advance.\<close>

definition next_start :: "int \<Rightarrow> int \<Rightarrow> int \<Rightarrow> int" where
  "next_start start end overlap =
     (let new_start = end - overlap
      in if new_start \<le> start then start + 1 else new_start)"

text \<open>\<open>if chunk: chunks.append(chunk)\<close>.\<close>

definition emit :: "string list \<Rightarrow> string \<Rightarrow> string list" where
  "emit chunks chunk = (if chunk \<noteq> [] then chunks @ [chunk] else chunks)"

text \<open>
  The \<open>while start < len(text)\<close> loop, with its \<open>break\<close> when the new start has
  reached the end of the text.
\<close>

function chunk_loop :: "string \<Rightarrow> int \<Rightarrow> int \<Rightarrow> int \<Rightarrow> string list \<Rightarrow> string list" where
  "chunk_loop text chunk_size overlap start chunks =
     (if start < int (length text) then
        (if next_start start (chunk_end text chunk_size start) overlap \<ge> int (length text)
         then emit chunks (py_strip (py_slice text start (chunk_end text chunk_size start)))
         else chunk_loop text chunk_size overlap
                (next_start start (chunk_end text chunk_size start) overlap)
                (emit chunks (py_strip (py_slice text start (chunk_end text chunk_size start)))))
      else chunks)"
  by pat_completeness auto
termination
  by (relation "measure (\<lambda>(text, chunk_size, overlap, start, chunks). nat (int (length text) - start))")
     (auto simp: next_start_def Let_def)

definition chunk_text :: "string \<Rightarrow> int \<Rightarrow> int \<Rightarrow> string list" where
  "chunk_text text chunk_size overlap =
     (if int (length text) \<le> chunk_size then [text]
      else chunk_loop text chunk_size overlap 0 [])"

text \<open>
  The iterations of the loop as a ghost trace: the pair \<open>(start, end)\<close> of every
  iteration, in order. It follows the recursion of \<open>chunk_loop\<close> and leaves the
  chunks out.
\<close>

function chunk_trace :: "string \<Rightarrow> int \<Rightarrow> int \<Rightarrow> int \<Rightarrow> (int \<times> int) list" where
  "chunk_trace text chunk_size overlap start =
     (if start < int (length text) then
        (if next_start start (chunk_end text chunk_size start) overlap \<ge> int (length text)
         then [(start, chunk_end text chunk_size start)]
         else (start, chunk_end text chunk_size start) #
              chunk_trace text chunk_size overlap
                (next_start start (chunk_end text chunk_size start) overlap))
      else [])"
  by pat_completeness auto
termination
  by (relation "measure (\<lambda>(text, chunk_size, overlap, start). nat (int (length text) - start))")
     (auto simp: next_start_def Let_def)

declare chunk_loop.simps [simp del] chunk_trace.simps [simp del]

text \<open>The chunk an iteration \<open>(start, end)\<close> yields, before the emptiness test.\<close>

definition piece :: "string \<Rightarrow> int \<times> int \<Rightarrow> string" where
  "piece text se = py_strip (py_slice text (fst se) (snd se))"


section \<open>The prompt builder (llm\_client.py)\<close>

text \<open>
  One retrieved chunk, as \<open>VectorDatabase.search\<close> builds it: the dictionary with the
  keys \<open>chunk\<close>, \<open>metadata\<close>, \<open>similarity_score\<close> and \<open>rank\<close>. Scores are
  floats in the source and real numbers here.
\<close>

record search_result =
  chunk :: string
  metadata :: py_dict
  similarity_score :: real
  rank :: int

text \<open>\<open>str(n)\<close> for an integer: its decimal digits, with a minus sign when negative.\<close>

fun nat_digits :: "nat \<Rightarrow> string" where
  "nat_digits n =
     (if n < 10 then [char_of (48 + n)]
      else nat_digits (n div 10) @ [char_of (48 + n mod 10)])"

declare nat_digits.simps [simp del]

text \<open>How an f-string renders a value.\<close>

fun py_str :: "py_value \<Rightarrow> string" where
  "py_str (PStr s) = s"
| "py_str (PInt i) = (if i < 0 then CHR ''-'' # nat_digits (nat (- i)) else nat_digits (nat i))"

text \<open>\<open>d[key]\<close>, which raises \<open>KeyError\<close> when the key is missing.\<close>

definition getitem :: "py_dict \<Rightarrow> string \<Rightarrow> py_error + py_value" where
  "getitem dict key = (case map_of dict key of None \<Rightarrow> Inl KeyError | Some v \<Rightarrow> Inr v)"

definition system_prompt :: string where
  "system_prompt =
      ''\<newline>'' @
      ''You are Charles Spurgeon. \<newline>'' @
      ''Instructions:\<newline>'' @
      ''1. Use ONLY the information provided in the context to answer the question\<newline>'' @
      ''2. If the context doesn't contain enough information to answer the question, demand that the user stay focused on theological matters. \<newline>'' @
      ''3. Cite the relevant document names when possible\<newline>'' @
      ''5. If asked about something not in the context, explain that you can only answer based on the provided documents\<newline>'' @
      ''6. IMPORTANT: Speak in the first person, as if you were Charles Spurgeon--using a passionate, 19th century preacher's diction. Try to give decisive answers. \<newline>'' @
      ''\<newline>'' @
      ''Context from documents:\<newline>''"

text \<open>
  The chunk formatted with its source line; the lookup of \<open>filename\<close> in the chunk's
  metadata raises \<open>KeyError\<close> when the key is missing.
\<close>

definition chunk_context :: "search_result \<Rightarrow> py_error + string" where
  "chunk_context chunk_data =
     (case getitem (metadata chunk_data) ''filename'' of
        Inl e \<Rightarrow> Inl e
      | Inr filename \<Rightarrow>
          Inr (''\<newline>--- From '' @ py_str filename @ '' ---\<newline>'' @ chunk chunk_data @ ''\<newline>''))"

text \<open>
  The loop over \<open>relevant_chunks\<close>. The state is \<open>context_parts\<close> and
  \<open>total_tokens\<close>; the \<open>break\<close> returns the state as it stands. The tokenizer
  belongs to a library, so \<open>count_tokens\<close> is a parameter.
\<close>

fun context_loop ::
  "(string \<Rightarrow> int) \<Rightarrow> int \<Rightarrow> search_result list \<Rightarrow> string list \<Rightarrow> int
     \<Rightarrow> py_error + (string list \<times> int)" where
  "context_loop count_tokens max_context_tokens [] context_parts total_tokens =
     Inr (context_parts, total_tokens)"
| "context_loop count_tokens max_context_tokens (chunk_data # rest) context_parts total_tokens =
     (case chunk_context chunk_data of
        Inl e \<Rightarrow> Inl e
      | Inr cc \<Rightarrow>
          if total_tokens + count_tokens cc > max_context_tokens
          then Inr (context_parts, total_tokens)
          else context_loop count_tokens max_context_tokens rest
                 (context_parts @ [cc]) (total_tokens + count_tokens cc))"

text \<open>The state of the loop when it ends, started as the source starts it.\<close>

definition assemble_context ::
  "(string \<Rightarrow> int) \<Rightarrow> string \<Rightarrow> search_result list \<Rightarrow> int \<Rightarrow> py_error + (string list \<times> int)" where
  "assemble_context count_tokens query relevant_chunks max_context_tokens =
     context_loop count_tokens max_context_tokens relevant_chunks []
       (count_tokens (system_prompt @ query))"

definition create_rag_prompt ::
  "(string \<Rightarrow> int) \<Rightarrow> string \<Rightarrow> search_result list \<Rightarrow> int \<Rightarrow> py_error + string" where
  "create_rag_prompt count_tokens query relevant_chunks max_context_tokens =
     (case assemble_context count_tokens query relevant_chunks max_context_tokens of
        Inl e \<Rightarrow> Inl e
      | Inr (context_parts, total_tokens) \<Rightarrow>
          Inr ((system_prompt @ concat context_parts) @
               ''\<newline>\<newline>Question: '' @ query @ ''\<newline>\<newline>Answer:''))"

section \<open>The vector database (vector\_db.py)\<close>

subsection \<open>The similarity index of the faiss library\<close>

text \<open>
  \<open>faiss.IndexFlatIP\<close> is a library class, modelled from its documented behaviour: an
  index of dimension \<open>d\<close> keeps the vectors it was given in insertion order, \<open>add\<close>
  asserts that the array has \<open>d\<close> columns, and \<open>search\<close> asserts that the query has
  \<open>d\<close> components and that \<open>k\<close> is positive and returns the \<open>k\<close> best inner
  products in descending order, each with the position of its vector. Vectors hold
  real numbers in place of 32-bit floats.
\<close>

record faiss_index =
  d :: int
  xb :: "real list list"

definition IndexFlatIP :: "int \<Rightarrow> faiss_index" where
  "IndexFlatIP dimension = \<lparr>d = dimension, xb = []\<rparr>"

definition ntotal :: "faiss_index \<Rightarrow> nat" where
  "ntotal idx = length (xb idx)"

text \<open>
  A two-dimensional numpy array: its number of columns (which an array with no rows
  still has) and its rows.
\<close>

record ndarray =
  ncols :: nat
  rows :: "real list list"

definition faiss_add :: "faiss_index \<Rightarrow> ndarray \<Rightarrow> py_error + faiss_index" where
  "faiss_add idx x =
     (if int (ncols x) \<noteq> d idx then Inl AssertionError
      else Inr (idx\<lparr>xb := xb idx @ rows x\<rparr>))"

definition inner_product :: "real list \<Rightarrow> real list \<Rightarrow> real" where
  "inner_product q v = sum_list (map2 (*) q v)"

text \<open>
  All stored vectors scored against the query and ranked by descending score. The library
  fixes no order among equal scores; the ranking here puts the vector stored first, and no
  property below depends on that choice. The library fills a request for more than
  \<open>ntotal\<close> hits with the label \<open>-1\<close>; \<open>VectorDatabase.search\<close> never asks for more than
  \<open>ntotal\<close>, so the hits here are positions of stored vectors only.
\<close>

definition ranked :: "faiss_index \<Rightarrow> real list \<Rightarrow> (real \<times> nat) list" where
  "ranked idx q =
     sort_key (\<lambda>hit. - fst hit) (zip (map (inner_product q) (xb idx)) [0..<ntotal idx])"

definition faiss_search :: "faiss_index \<Rightarrow> real list \<Rightarrow> int \<Rightarrow> py_error + (real \<times> nat) list" where
  "faiss_search idx q k =
     (if int (length q) \<noteq> d idx then Inl AssertionError
      else if k \<le> 0 then Inl AssertionError
      else Inr (take (nat k) (ranked idx q)))"

subsection \<open>VectorDatabase\<close>

record vector_database =
  db_path :: string
  embedding_dimension :: int
  index :: "faiss_index option"
  documents :: "py_dict list"
  chunks :: "string list"

text \<open>\<open>__init__\<close>; creating the directory changes no file of the database.\<close>

definition VectorDatabase :: "string \<Rightarrow> int \<Rightarrow> vector_database" where
  "VectorDatabase path dimension =
     \<lparr>db_path = path, embedding_dimension = dimension, index = None,
      documents = [], chunks = []\<rparr>"

definition create_index :: "vector_database \<Rightarrow> vector_database" where
  "create_index db = db\<lparr>index := Some (IndexFlatIP (embedding_dimension db))\<rparr>"

text \<open>
  \<open>add_documents\<close> returns the exception it raised, if any, and the state it leaves:
  an exception undoes nothing, so an index created by this call stays.
\<close>

definition add_documents ::
  "vector_database \<Rightarrow> ndarray \<Rightarrow> string list \<Rightarrow> py_dict list
     \<Rightarrow> py_error option \<times> vector_database" where
  "add_documents db embeddings new_chunks document_metadata =
     (let db1 = (if index db = None then create_index db else db)
      in case index db1 of
           None \<Rightarrow> (Some AttributeError, db1)
         | Some idx \<Rightarrow>
             (case faiss_add idx embeddings of
                Inl e \<Rightarrow> (Some e, db1)
              | Inr idx' \<Rightarrow>
                  (None, db1\<lparr>index := Some idx',
                             chunks := chunks db1 @ new_chunks,
                             documents := documents db1 @ document_metadata\<rparr>)))"

text \<open>
  The loop of \<open>search\<close> over the hits, \<open>i\<close> counting them from 0. The test compares
  the hit's position with the number of chunks only; \<open>self.documents[idx]\<close> raises
  \<open>IndexError\<close> when the metadata list is shorter.
\<close>

fun collect_results ::
  "vector_database \<Rightarrow> nat \<Rightarrow> (real \<times> nat) list \<Rightarrow> search_result list
     \<Rightarrow> py_error + search_result list" where
  "collect_results db i [] results = Inr results"
| "collect_results db i ((score, idx) # hits) results =
     (if idx < length (chunks db) then
        (if idx < length (documents db) then
           collect_results db (i + 1) hits
             (results @ [\<lparr>chunk = chunks db ! idx, metadata = documents db ! idx,
                          similarity_score = score, rank = int i + 1\<rparr>])
         else Inl IndexError)
      else collect_results db (i + 1) hits results)"

text \<open>\<open>search\<close> with a one-dimensional query, which the source reshapes to one row.\<close>

definition search :: "vector_database \<Rightarrow> real list \<Rightarrow> int \<Rightarrow> py_error + search_result list" where
  "search db query_embedding k =
     (case index db of
        None \<Rightarrow> Inr []
      | Some idx \<Rightarrow>
          if ntotal idx = 0 then Inr []
          else (case faiss_search idx query_embedding (min k (int (ntotal idx))) of
                  Inl e \<Rightarrow> Inl e
                | Inr hits \<Rightarrow> collect_results db 0 hits []))"

subsection \<open>Persistence\<close>

text \<open>
  A file of the database directory: missing, present but unreadable (truncated or
  corrupt, so that reading it raises), or present with its content.
\<close>

datatype 'a artifact = Missing | Unreadable | Content 'a

text \<open>The pickled dictionary, whose two keys may each be missing.\<close>

record pickle_data =
  pk_chunks :: "string list option"
  pk_documents :: "py_dict list option"

record directory =
  index_file :: "faiss_index artifact"
  metadata_file :: "py_dict artifact"
  chunks_file :: "pickle_data artifact"

text \<open>The file system maps the path of a database to its directory.\<close>

type_synonym filesystem = "string \<Rightarrow> directory"

definition exists_file :: "'a artifact \<Rightarrow> bool" where
  "exists_file f = (f \<noteq> Missing)"

text \<open>\<open>len(set(doc['filename'] for doc in documents))\<close>.\<close>

fun filenames :: "py_dict list \<Rightarrow> py_error + py_value list" where
  "filenames [] = Inr []"
| "filenames (doc # docs) =
     (case getitem doc ''filename'' of
        Inl e \<Rightarrow> Inl e
      | Inr f \<Rightarrow> (case filenames docs of Inl e \<Rightarrow> Inl e | Inr fs \<Rightarrow> Inr (f # fs)))"

definition count_unique_docs :: "py_dict list \<Rightarrow> py_error + nat" where
  "count_unique_docs docs =
     (case filenames docs of Inl e \<Rightarrow> Inl e | Inr fs \<Rightarrow> Inr (length (remdups fs)))"

text \<open>
  \<open>save\<close> writes the index file first, then computes the header, then writes the
  header and the chunks. Writing is taken to succeed.
\<close>

definition save :: "vector_database \<Rightarrow> filesystem \<Rightarrow> py_error option \<times> filesystem" where
  "save db fs =
     (case index db of
        None \<Rightarrow> (None, fs)
      | Some idx \<Rightarrow>
          (let p = db_path db;
               fs1 = fs(p := (fs p)\<lparr>index_file := Content idx\<rparr>)
           in case count_unique_docs (documents db) of
                Inl e \<Rightarrow> (Some e, fs1)
              | Inr n \<Rightarrow>
                  (let header = [(''total_documents'', PInt (int n)),
                                 (''total_chunks'', PInt (int (length (chunks db)))),
                                 (''embedding_dimension'', PInt (embedding_dimension db))];
                       fs2 = fs1(p := (fs1 p)\<lparr>metadata_file := Content header\<rparr>);
                       fs3 = fs2(p := (fs2 p)\<lparr>chunks_file :=
                               Content \<lparr>pk_chunks = Some (chunks db),
                                        pk_documents = Some (documents db)\<rparr>\<rparr>)
                   in (None, fs3))))"

text \<open>
  \<open>load\<close>: every exception inside the \<open>try\<close> is caught and turned into \<open>False\<close>;
  what was assigned to \<open>self\<close> before the exception stays assigned. The header is
  only printed: its \<open>total_documents\<close> and \<open>total_chunks\<close> are looked up after the
  chunks and the metadata have been stored.
\<close>

definition load :: "filesystem \<Rightarrow> vector_database \<Rightarrow> bool \<times> vector_database" where
  "load fs db =
     (let dir = fs (db_path db)
      in if \<not> (exists_file (index_file dir) \<and> exists_file (metadata_file dir)
                \<and> exists_file (chunks_file dir))
         then (False, db)
         else (case index_file dir of
                 Content idx \<Rightarrow>
                   (let db1 = db\<lparr>index := Some idx\<rparr>
                    in case metadata_file dir of
                         Content header \<Rightarrow>
                           (case chunks_file dir of
                              Content data \<Rightarrow>
                                (case pk_chunks data of
                                   None \<Rightarrow> (False, db1)
                                 | Some cs \<Rightarrow>
                                     (let db2 = db1\<lparr>chunks := cs\<rparr>
                                      in case pk_documents data of
                                           None \<Rightarrow> (False, db2)
                                         | Some ds \<Rightarrow>
                                             (let db3 = db2\<lparr>documents := ds\<rparr>
                                              in case getitem header ''total_documents'' of
                                                   Inl e \<Rightarrow> (False, db3)
                                                 | Inr _ \<Rightarrow>
                                                     (case getitem header ''total_chunks'' of
                                                        Inl e \<Rightarrow> (False, db3)
                                                      | Inr _ \<Rightarrow> (True, db3)))))
                            | _ \<Rightarrow> (False, db1))
                       | _ \<Rightarrow> (False, db1))
               | _ \<Rightarrow> (False, db)))"

text \<open>The dictionary \<open>get_stats\<close> returns.\<close>

datatype stats =
  NoIndexLoaded
| Stats (total_documents: nat) (total_chunks: nat) (vectors_in_index: nat)
    (stats_dimension: int) (database_path: string)

definition get_stats :: "vector_database \<Rightarrow> py_error + stats" where
  "get_stats db =
     (case index db of
        None \<Rightarrow> Inr NoIndexLoaded
      | Some idx \<Rightarrow>
          (case count_unique_docs (documents db) of
             Inl e \<Rightarrow> Inl e
           | Inr n \<Rightarrow>
               Inr (Stats n (length (chunks db)) (ntotal idx) (embedding_dimension db)
                      (db_path db))))"

subsection \<open>Observations of the database state\<close>

text \<open>
  The number of vectors held by the index, the vectors themselves, and the dimension the
  index accepts: the dimension of the index once it exists, the configured
  \<open>embedding_dimension\<close> before, since that is what \<open>create_index\<close> will allocate.
\<close>

definition vector_count :: "vector_database \<Rightarrow> nat" where
  "vector_count db = (case index db of None \<Rightarrow> 0 | Some idx \<Rightarrow> ntotal idx)"

definition stored_vectors :: "vector_database \<Rightarrow> real list list" where
  "stored_vectors db = (case index db of None \<Rightarrow> [] | Some idx \<Rightarrow> xb idx)"

definition index_dimension :: "vector_database \<Rightarrow> int" where
  "index_dimension db = (case index db of None \<Rightarrow> embedding_dimension db | Some idx \<Rightarrow> d idx)"

section \<open>Properties of the chunker\<close>

lemma emit_filter: "emit acc c = acc @ filter (\<lambda>x. x \<noteq> []) [c]"
  by (simp add: emit_def)

lemma chunk_loop_trace:
  "chunk_loop t cs ov start acc =
     acc @ filter (\<lambda>c. c \<noteq> []) (map (piece t) (chunk_trace t cs ov start))"
proof (induction t cs ov start acc rule: chunk_loop.induct)
  case (1 t cs ov start acc)
  note unfold = chunk_loop.simps [of t cs ov start] chunk_trace.simps [of t cs ov start]
  show ?case
  proof (cases "start < int (length t)")
    case False
    then show ?thesis
      by (simp add: unfold)
  next
    case inside: True
    show ?thesis
    proof (cases "next_start start (chunk_end t cs start) ov \<ge> int (length t)")
      case True
      with inside show ?thesis
        by (simp add: unfold emit_def piece_def)
    next
      case False
      with inside "1.IH" show ?thesis
        by (simp add: unfold emit_def piece_def)
    qed
  qed
qed

lemma next_start_gt: "start < next_start start e ov"
  by (simp add: next_start_def Let_def)

lemma chunk_trace_length:
  "length (chunk_trace t cs ov start) \<le> nat (int (length t) - start)"
proof (induction t cs ov start rule: chunk_trace.induct)
  case (1 t cs ov start)
  note unfold = chunk_trace.simps [of t cs ov start]
  show ?case
  proof (cases "start < int (length t)")
    case False
    then show ?thesis by (simp add: unfold)
  next
    case inside: True
    show ?thesis
    proof (cases "next_start start (chunk_end t cs start) ov \<ge> int (length t)")
      case True
      with inside show ?thesis by (simp add: unfold)
    next
      case False
      have "length (chunk_trace t cs ov (next_start start (chunk_end t cs start) ov))
              \<le> nat (int (length t) - next_start start (chunk_end t cs start) ov)"
        using "1.IH" inside False by simp
      moreover have "start < next_start start (chunk_end t cs start) ov"
        by (rule next_start_gt)
      ultimately show ?thesis using inside False by (simp add: unfold)
    qed
  qed
qed

lemma chunk_trace_starts_ge:
  "se \<in> set (chunk_trace t cs ov start) \<Longrightarrow> start \<le> fst se"
proof (induction t cs ov start rule: chunk_trace.induct)
  case (1 t cs ov start)
  note unfold = chunk_trace.simps [of t cs ov start]
  show ?case
  proof (cases "start < int (length t)")
    case False
    with "1.prems" show ?thesis by (simp add: unfold)
  next
    case inside: True
    show ?thesis
    proof (cases "next_start start (chunk_end t cs start) ov \<ge> int (length t)")
      case True
      with inside "1.prems" show ?thesis by (simp add: unfold)
    next
      case False
      from "1.prems" inside False
      consider "se = (start, chunk_end t cs start)"
        | "se \<in> set (chunk_trace t cs ov (next_start start (chunk_end t cs start) ov))"
        by (auto simp: unfold)
      then show ?thesis
      proof cases
        case 1
        then show ?thesis by simp
      next
        case 2
        then have "next_start start (chunk_end t cs start) ov \<le> fst se"
          using "1.IH" inside False by simp
        with next_start_gt [of start "chunk_end t cs start" ov] show ?thesis by linarith
      qed
    qed
  qed
qed

lemma chunk_trace_increasing:
  "sorted_wrt (<) (map fst (chunk_trace t cs ov start))"
proof (induction t cs ov start rule: chunk_trace.induct)
  case (1 t cs ov start)
  note unfold = chunk_trace.simps [of t cs ov start]
  show ?case
  proof (cases "start < int (length t)")
    case False
    then show ?thesis by (simp add: unfold)
  next
    case inside: True
    show ?thesis
    proof (cases "next_start start (chunk_end t cs start) ov \<ge> int (length t)")
      case True
      with inside show ?thesis by (simp add: unfold)
    next
      case False
      have later: "start < fst se"
        if "se \<in> set (chunk_trace t cs ov (next_start start (chunk_end t cs start) ov))" for se
        using chunk_trace_starts_ge [OF that] next_start_gt [of start "chunk_end t cs start" ov]
        by linarith
      from "1.IH" inside False
      have "sorted_wrt (<) (map fst (chunk_trace t cs ov (next_start start (chunk_end t cs start) ov)))"
        by simp
      with later inside False show ?thesis by (auto simp: unfold)
    qed
  qed
qed

text \<open>
  Claim C4. For every text and all parameters (so in particular for
  \<open>chunk_size > overlap \<ge> 0\<close>) \<open>chunk_text\<close> terminates: it is a total function,
  by the termination proof of its loop. When the text is longer than \<open>chunk_size\<close> the
  chunks are those of the loop's iterations, which the trace lists; the loop runs at most
  \<open>len(text) + 1\<close> iterations; the start positions of successive iterations strictly
  increase; and the new start is \<open>start + 1\<close> whenever \<open>end - overlap \<le> start\<close>, and
  \<open>end - overlap\<close> otherwise.
\<close>

theorem chunk_text_iterations:
  "chunk_text t cs ov =
     (if int (length t) \<le> cs then [t]
      else filter (\<lambda>c. c \<noteq> []) (map (piece t) (chunk_trace t cs ov 0)))
   \<and> length (chunk_trace t cs ov 0) \<le> length t + 1
   \<and> sorted_wrt (<) (map fst (chunk_trace t cs ov 0))
   \<and> next_start start e ov = (if e - ov \<le> start then start + 1 else e - ov)"
proof -
  have "length (chunk_trace t cs ov 0) \<le> length t"
    using chunk_trace_length [of t cs ov 0] by simp
  then show ?thesis
    by (simp add: chunk_text_def chunk_loop_trace chunk_trace_increasing next_start_def Let_def)
qed

theorem chunk_text_iterations_witness:
  "chunk_text ''aaaa bbbb'' 6 0 =
     filter (\<lambda>c. c \<noteq> []) (map (piece ''aaaa bbbb'') (chunk_trace ''aaaa bbbb'' 6 0 0))
   \<and> length (chunk_trace ''aaaa bbbb'' 6 0 0) \<le> 10
   \<and> sorted_wrt (<) (map fst (chunk_trace ''aaaa bbbb'' 6 0 0))
   \<and> next_start 4 4 0 = 5"
  using chunk_text_iterations [of "''aaaa bbbb''" 6 0 4 4] by simp












lemma dropWhile_full_length:
  "length (dropWhile P xs) = length xs \<Longrightarrow> dropWhile P xs = xs"
proof -
  assume a: "length (dropWhile P xs) = length xs"
  have "length (takeWhile P xs) + length (dropWhile P xs) = length xs"
    by (metis length_append takeWhile_dropWhile_id)
  with a have "takeWhile P xs = []" by simp
  then show ?thesis by (metis append_Nil takeWhile_dropWhile_id)
qed

lemma py_strip_id_iff:
  "py_strip t = t \<longleftrightarrow> t = [] \<or> (\<not> py_isspace (hd t) \<and> \<not> py_isspace (last t))"
proof
  assume id: "py_strip t = t"
  show "t = [] \<or> (\<not> py_isspace (hd t) \<and> \<not> py_isspace (last t))"
  proof (cases "t = []")
    case True
    then show ?thesis by simp
  next
    case False
    let ?u = "dropWhile py_isspace t"
    have "length t = length (dropWhile py_isspace (rev ?u))"
      using arg_cong [OF id, of length] by (simp add: py_strip_def)
    also have "\<dots> \<le> length (rev ?u)" by (rule length_dropWhile_le)
    finally have "length t \<le> length ?u" by simp
    moreover have "length ?u \<le> length t" by (rule length_dropWhile_le)
    ultimately have u: "?u = t" using dropWhile_full_length [of py_isspace t] by simp
    then have "rev (dropWhile py_isspace (rev t)) = t"
      using id by (simp add: py_strip_def)
    then have "length (dropWhile py_isspace (rev t)) = length (rev t)"
      by (metis length_rev)
    then have r: "dropWhile py_isspace (rev t) = rev t"
      by (rule dropWhile_full_length)
    from u False have "\<not> py_isspace (hd t)"
      by (simp add: dropWhile_eq_self_iff)
    moreover from r False have "\<not> py_isspace (last t)"
      by (simp add: dropWhile_eq_self_iff hd_rev)
    ultimately show ?thesis by simp
  qed
next
  assume "t = [] \<or> (\<not> py_isspace (hd t) \<and> \<not> py_isspace (last t))"
  then show "py_strip t = t"
  proof
    assume "t = []"
    then show ?thesis by (simp add: py_strip_def)
  next
    assume a: "\<not> py_isspace (hd t) \<and> \<not> py_isspace (last t)"
    then have "dropWhile py_isspace t = t"
      by (simp add: dropWhile_eq_self_iff)
    moreover have "dropWhile py_isspace (rev t) = rev t"
      using a by (simp add: dropWhile_eq_self_iff hd_rev)
    ultimately show ?thesis by (simp add: py_strip_def)
  qed
qed

text \<open>
  Claim C5, as the code has it. For every text with \<open>len(text) \<le> chunk_size\<close> (and any
  overlap) \<open>chunk_text\<close> returns exactly one element, the input text itself, untrimmed.
  That element is the trimmed input exactly when the text is empty or neither starts nor
  ends with whitespace. For the empty string the result is the one-element sequence holding
  the empty string.
\<close>

theorem chunk_text_short:
  "int (length t) \<le> cs \<Longrightarrow>
     chunk_text t cs ov = [t]
     \<and> (chunk_text t cs ov = [py_strip t]
          \<longleftrightarrow> t = [] \<or> (\<not> py_isspace (hd t) \<and> \<not> py_isspace (last t)))"
  using py_strip_id_iff [of t] by (auto simp: chunk_text_def)

theorem chunk_text_short_witness:
  "int (length '' a'') \<le> 500 \<and> chunk_text '' a'' 500 50 = ['' a'']
   \<and> chunk_text '' a'' 500 50 \<noteq> [py_strip '' a'']"
  using chunk_text_short [of "'' a''" 500 50] by (simp add: py_isspace_def py_strip_def)

text \<open>
  The claim as stated fails: for the empty string the result is not the empty sequence,
  and for \<open>" a"\<close> the single chunk is \<open>" a"\<close>, not the trimmed \<open>"a"\<close>.
\<close>

theorem chunk_text_short_counterexample:
  "chunk_text '''' 500 50 = [''''] \<and> chunk_text '''' 500 50 \<noteq> []
   \<and> py_strip '' a'' = ''a'' \<and> chunk_text '' a'' 500 50 = ['' a'']"
  by (simp add: chunk_text_def py_strip_def py_isspace_def)






section \<open>Properties of the prompt builder\<close>

lemma context_loop_prefix:
  "context_loop ct maxc cks parts0 t0 = Inr (parts, tot) \<Longrightarrow>
     \<exists>n new. n \<le> length cks \<and> length new = n \<and> parts = parts0 @ new
        \<and> map chunk_context (take n cks) = map Inr new
        \<and> tot = t0 + sum_list (map ct new)
        \<and> (\<forall>k<n. t0 + sum_list (map ct (take (Suc k) new)) \<le> maxc)
        \<and> (n < length cks \<longrightarrow> (\<exists>cc. chunk_context (cks ! n) = Inr cc \<and> tot + ct cc > maxc))"
proof (induction cks arbitrary: parts0 t0)
  case Nil
  then show ?case by simp
next
  case (Cons c rest)
  from Cons.prems obtain cc where cc: "chunk_context c = Inr cc"
    by (cases "chunk_context c") auto
  show ?case
  proof (cases "t0 + ct cc > maxc")
    case True
    with Cons.prems cc have "parts = parts0" "tot = t0" by simp_all
    with True cc show ?thesis
      by (intro exI [of _ 0] exI [of _ "[]"]) simp
  next
    case False
    with Cons.prems cc
    have "context_loop ct maxc rest (parts0 @ [cc]) (t0 + ct cc) = Inr (parts, tot)"
      by simp
    from Cons.IH [OF this] obtain n new where
      n: "n \<le> length rest" "length new = n" "parts = (parts0 @ [cc]) @ new"
        "map chunk_context (take n rest) = map Inr new"
        "tot = t0 + ct cc + sum_list (map ct new)"
        "\<forall>k<n. t0 + ct cc + sum_list (map ct (take (Suc k) new)) \<le> maxc"
        "n < length rest \<longrightarrow> (\<exists>cc'. chunk_context (rest ! n) = Inr cc' \<and> tot + ct cc' > maxc)"
      by blast
    have steps: "\<forall>k<Suc n. t0 + sum_list (map ct (take (Suc k) (cc # new))) \<le> maxc"
    proof (intro allI impI)
      fix k assume k: "k < Suc n"
      show "t0 + sum_list (map ct (take (Suc k) (cc # new))) \<le> maxc"
      proof (cases k)
        case 0
        with False show ?thesis by simp
      next
        case (Suc k')
        with k n(6) have "t0 + ct cc + sum_list (map ct (take (Suc k') new)) \<le> maxc" by simp
        with Suc show ?thesis by (simp add: add.assoc)
      qed
    qed
    show ?thesis
      using n cc steps
      by (intro exI [of _ "Suc n"] exI [of _ "cc # new"]) (simp add: add.assoc)
  qed
qed

text \<open>
  Claim C7, as the code has it. For every query, chunk sequence, budget and token counter
  (of any sign), when \<open>create_rag_prompt\<close> returns: the running total starts at the count
  of the preamble joined with the query; the included chunks are a prefix of the given
  chunks, formatted, in their order (none is skipped); every inclusion kept the running
  total within \<open>max_context_tokens\<close>; if a chunk is left, the first one left would have
  exceeded the budget; the final running total is at most the larger of the initial count
  and \<open>max_context_tokens\<close>, and within \<open>max_context_tokens\<close> as soon as one chunk was
  included; the prompt is the preamble, the included chunks and the question framing with
  the query. With no chunk supplied the prompt is the preamble followed by the question
  framing with the query.
\<close>

theorem create_rag_prompt_budget:
  assumes "assemble_context ct query cks maxc = Inr (parts, tot)"
  shows "\<exists>n\<le>length cks.
           map chunk_context (take n cks) = map Inr parts
         \<and> tot = ct (system_prompt @ query) + sum_list (map ct parts)
         \<and> (\<forall>k<n. ct (system_prompt @ query) + sum_list (map ct (take (Suc k) parts)) \<le> maxc)
         \<and> (n < length cks \<longrightarrow> (\<exists>cc. chunk_context (cks ! n) = Inr cc \<and> tot + ct cc > maxc))
         \<and> tot \<le> max (ct (system_prompt @ query)) maxc
         \<and> (parts \<noteq> [] \<longrightarrow> tot \<le> maxc)
         \<and> create_rag_prompt ct query cks maxc =
             Inr (system_prompt @ concat parts @ ''\<newline>\<newline>Question: '' @ query @ ''\<newline>\<newline>Answer:'')
         \<and> create_rag_prompt ct query [] maxc =
             Inr (system_prompt @ ''\<newline>\<newline>Question: '' @ query @ ''\<newline>\<newline>Answer:'')"
proof -
  let ?t0 = "ct (system_prompt @ query)"
  from assms have "context_loop ct maxc cks [] ?t0 = Inr (parts, tot)"
    by (simp add: assemble_context_def)
  from context_loop_prefix [OF this] obtain n new where
    n: "n \<le> length cks" "length new = n" "parts = new"
      "map chunk_context (take n cks) = map Inr new"
      "tot = ?t0 + sum_list (map ct new)"
      "\<forall>k<n. ?t0 + sum_list (map ct (take (Suc k) new)) \<le> maxc"
      "n < length cks \<longrightarrow> (\<exists>cc. chunk_context (cks ! n) = Inr cc \<and> tot + ct cc > maxc)"
    by auto
  have within: "tot \<le> maxc" if "parts \<noteq> []"
  proof -
    from that n have "0 < n" by auto
    then obtain k where k: "n = Suc k" by (cases n) auto
    with n(6) have "?t0 + sum_list (map ct (take (Suc k) new)) \<le> maxc" by simp
    with k n(2) n(5) show ?thesis by simp
  qed
  have bound: "tot \<le> max ?t0 maxc"
  proof (cases "parts = []")
    case True
    with n show ?thesis by simp
  next
    case False
    with within show ?thesis by simp
  qed
  have prompt: "create_rag_prompt ct query cks maxc =
      Inr (system_prompt @ concat parts @ ''\<newline>\<newline>Question: '' @ query @ ''\<newline>\<newline>Answer:'')"
    using assms by (simp add: create_rag_prompt_def)
  have empty: "create_rag_prompt ct query [] maxc =
      Inr (system_prompt @ ''\<newline>\<newline>Question: '' @ query @ ''\<newline>\<newline>Answer:'')"
    by (simp add: create_rag_prompt_def assemble_context_def)
  show ?thesis
    using n within bound prompt empty by (intro exI [of _ n]) simp
qed

theorem create_rag_prompt_budget_witness:
  "assemble_context (\<lambda>s. int (length s)) ''q''
     [\<lparr>chunk = ''grace'', metadata = [(''filename'', PStr ''a.pdf'')], similarity_score = 1, rank = 1\<rparr>,
      \<lparr>chunk = ''faith'', metadata = [(''filename'', PStr ''b.pdf'')], similarity_score = 0, rank = 2\<rparr>]
     640
     = Inr ([''\<newline>--- From a.pdf ---\<newline>grace\<newline>''], 626)
   \<and> (626::int) \<le> max (int (length (system_prompt @ ''q''))) 640
   \<and> create_rag_prompt (\<lambda>s. int (length s)) ''q''
     [\<lparr>chunk = ''grace'', metadata = [(''filename'', PStr ''a.pdf'')], similarity_score = 1, rank = 1\<rparr>,
      \<lparr>chunk = ''faith'', metadata = [(''filename'', PStr ''b.pdf'')], similarity_score = 0, rank = 2\<rparr>]
     640
     = Inr (system_prompt @ ''\<newline>--- From a.pdf ---\<newline>grace\<newline>''
            @ ''\<newline>\<newline>Question: q\<newline>\<newline>Answer:'')"
proof -
  let ?cks = "[\<lparr>chunk = ''grace'', metadata = [(''filename'', PStr ''a.pdf'')], similarity_score = 1, rank = 1\<rparr>,
      \<lparr>chunk = ''faith'', metadata = [(''filename'', PStr ''b.pdf'')], similarity_score = 0, rank = 2\<rparr>]"
  have h: "assemble_context (\<lambda>s. int (length s)) ''q'' ?cks 640
     = Inr ([''\<newline>--- From a.pdf ---\<newline>grace\<newline>''], 626)"
    by (simp add: assemble_context_def chunk_context_def getitem_def system_prompt_def)
  from create_rag_prompt_budget [OF h] h show ?thesis
    by auto
qed

text \<open>
  Claim C7 as stated fails where the preamble and the query alone exceed the budget: with
  the character count as token counter (never negative), no chunk and
  \<open>max_context_tokens = 0\<close>, the running total is 600.
\<close>

theorem create_rag_prompt_budget_counterexample:
  "assemble_context (\<lambda>s. int (length s)) ''q'' [] 0 = Inr ([], 600) \<and> (0::int) < 600"
  by (simp add: assemble_context_def system_prompt_def)

section \<open>Properties of the vector database\<close>

subsection \<open>The ranking of the similarity index and the result loop\<close>




text \<open>
  The loop of \<open>search\<close> tests a hit against the chunk list only. Where the metadata list
  is at least as long as the chunk list, that test protects both reads: the loop returns,
  in order, one result for every hit whose position is inside the chunk list and drops
  the others.
\<close>

lemma collect_results_guard:
  "length (chunks db) \<le> length (documents db) \<Longrightarrow>
   \<exists>rs. collect_results db i hits acc = Inr (acc @ rs)
      \<and> map similarity_score rs = map fst (filter (\<lambda>h. snd h < length (chunks db)) hits)
      \<and> map chunk rs = map (\<lambda>h. chunks db ! snd h) (filter (\<lambda>h. snd h < length (chunks db)) hits)"
proof (induction hits arbitrary: i acc)
  case Nil
  then show ?case by simp
next
  case (Cons h hits)
  obtain score j where h: "h = (score, j)" by (cases h)
  show ?case
  proof (cases "j < length (chunks db)")
    case True
    with Cons.prems have jd: "j < length (documents db)" by simp
    let ?r = "\<lparr>chunk = chunks db ! j, metadata = documents db ! j,
               similarity_score = score, rank = int i + 1\<rparr>"
    from Cons.IH [OF Cons.prems, of "i + 1" "acc @ [?r]"]
    obtain rs where rs: "collect_results db (i + 1) hits (acc @ [?r]) = Inr ((acc @ [?r]) @ rs)"
      "map similarity_score rs = map fst (filter (\<lambda>h. snd h < length (chunks db)) hits)"
      "map chunk rs = map (\<lambda>h. chunks db ! snd h) (filter (\<lambda>h. snd h < length (chunks db)) hits)"
      by blast
    have "collect_results db i (h # hits) acc = Inr (acc @ (?r # rs))"
      using rs(1) True jd by (simp add: h)
    moreover have "map similarity_score (?r # rs)
        = map fst (filter (\<lambda>h. snd h < length (chunks db)) (h # hits))"
      using rs(2) True by (simp add: h)
    moreover have "map chunk (?r # rs)
        = map (\<lambda>h. chunks db ! snd h) (filter (\<lambda>h. snd h < length (chunks db)) (h # hits))"
      using rs(3) True by (simp add: h)
    ultimately show ?thesis by blast
  next
    case False
    from Cons.IH [OF Cons.prems, of "i + 1" acc]
    show ?thesis using False by (simp add: h)
  qed
qed

lemma search_guarded:
  assumes "length (chunks db) \<le> length (documents db)"
  shows "search db q k \<noteq> Inl IndexError"
proof -
  have "\<And>hits. collect_results db 0 hits [] \<noteq> Inl IndexError"
    using collect_results_guard [OF assms, of 0 _ "[]"] by (metis Inl_Inr_False)
  then show ?thesis
    by (auto simp: search_def faiss_search_def split: option.splits sum.splits if_splits)
qed

lemma search_drops_hits:
  "search \<lparr>db_path = ''p'', embedding_dimension = 2,
          index = Some \<lparr>d = 2, xb = [[1, 0], [0, 1], [1, 2]]\<rparr>,
          documents = [[(''filename'', PStr ''a.pdf'')], [(''filename'', PStr ''b.pdf'')]],
          chunks = [''a'', ''b'']\<rparr> [0, 1] 3
   = Inr [\<lparr>chunk = ''b'', metadata = [(''filename'', PStr ''b.pdf'')], similarity_score = 1, rank = 2\<rparr>,
          \<lparr>chunk = ''a'', metadata = [(''filename'', PStr ''a.pdf'')], similarity_score = 0, rank = 3\<rparr>]"
  by (simp add: search_def ntotal_def faiss_search_def ranked_def inner_product_def)

subsection \<open>search\<close>



text \<open>
  Claim C10. The guard of the result loop compares a hit with the length of the chunk list
  only, and the metadata list is read at the same position without a test of its own.
  After one \<open>add_documents\<close> call with two vectors, two chunks and one metadata record, the
  second hit is inside the chunk list and outside the metadata list: \<open>search\<close> raises
  \<open>IndexError\<close>.
\<close>

theorem search_metadata_out_of_range:
  "search (snd (add_documents (VectorDatabase ''p'' 2) \<lparr>ncols = 2, rows = [[1, 0], [0, 1]]\<rparr>
                  [''a'', ''b''] [[(''filename'', PStr ''a.pdf'')]]))
          [0, 1] 5 = Inl IndexError"
  by (simp add: add_documents_def VectorDatabase_def create_index_def IndexFlatIP_def
        faiss_add_def search_def ntotal_def faiss_search_def ranked_def inner_product_def Let_def)

subsection \<open>add\_documents\<close>

text \<open>
  Claim C3 as stated fails: \<open>add_documents\<close> never compares the lengths of its three
  arguments. A call with two vectors, one chunk and no metadata succeeds and stores all
  of them.
\<close>

theorem add_documents_length_counterexample:
  "add_documents (VectorDatabase ''p'' 2) \<lparr>ncols = 2, rows = [[1, 0], [0, 1]]\<rparr> [''c''] []
     = (None, \<lparr>db_path = ''p'', embedding_dimension = 2,
               index = Some \<lparr>d = 2, xb = [[1, 0], [0, 1]]\<rparr>, documents = [], chunks = [''c'']\<rparr>)"
  by (simp add: add_documents_def VectorDatabase_def create_index_def IndexFlatIP_def faiss_add_def)

text \<open>
  Claim C3, as the code has it. Whatever the lengths of the three arguments, a call whose
  array has the dimension of the index succeeds and appends all the vectors, all the
  chunks and all the metadata records, each in input order: the vector count grows by the
  number of vectors, the chunk list by the given chunks, the metadata list by the given
  records.
\<close>

theorem add_documents_no_length_check:
  assumes "int (ncols e) = index_dimension db"
  shows "\<exists>db'. add_documents db e cks md = (None, db')
           \<and> stored_vectors db' = stored_vectors db @ rows e
           \<and> vector_count db' = vector_count db + length (rows e)
           \<and> chunks db' = chunks db @ cks
           \<and> documents db' = documents db @ md"
  using assms
  by (cases "index db")
     (simp_all add: add_documents_def create_index_def IndexFlatIP_def faiss_add_def
        index_dimension_def stored_vectors_def vector_count_def ntotal_def Let_def)

theorem add_documents_no_length_check_witness:
  "int (ncols \<lparr>ncols = 2, rows = [[1, 0], [0, 1]]\<rparr>) = index_dimension (VectorDatabase ''p'' 2)
   \<and> (\<exists>db'. add_documents (VectorDatabase ''p'' 2) \<lparr>ncols = 2, rows = [[1, 0], [0, 1]]\<rparr> [''c''] [] = (None, db')
        \<and> vector_count db' = 2 \<and> chunks db' = [''c''] \<and> documents db' = [])"
proof -
  have h: "int (ncols \<lparr>ncols = 2, rows = [[1, 0], [0, 1]]\<rparr>) = index_dimension (VectorDatabase ''p'' 2)"
    by (simp add: index_dimension_def VectorDatabase_def)
  from add_documents_no_length_check [OF h, of "[''c'']" "[]"] h show ?thesis
    by (auto simp: vector_count_def VectorDatabase_def)
qed

text \<open>
  Claim C9 as stated fails: the index is allocated with the configured
  \<open>embedding_dimension\<close>, not with the dimension of the first vector. On an instance
  configured with dimension 3 the first call, with vectors of dimension 2, fails and
  leaves an empty index of dimension 3.
\<close>

theorem add_documents_dimension_counterexample:
  "add_documents (VectorDatabase ''p'' 3) \<lparr>ncols = 2, rows = [[1, 0]]\<rparr> [''c'']
       [[(''filename'', PStr ''a.pdf'')]]
     = (Some AssertionError,
        \<lparr>db_path = ''p'', embedding_dimension = 3, index = Some \<lparr>d = 3, xb = []\<rparr>,
          documents = [], chunks = []\<rparr>)"
  by (simp add: add_documents_def VectorDatabase_def create_index_def IndexFlatIP_def faiss_add_def)

text \<open>
  Claim C9, as the code has it. The first call allocates the index with the configured
  \<open>embedding_dimension\<close>. Every call, the first included, whose array has another
  dimension than the index fails with the \<open>AssertionError\<close> of the library's \<open>add\<close>, and
  adds nothing: the vector count, the chunks, the metadata and the dimension of the index
  are what they were before the call.
\<close>

theorem add_documents_dimension:
  "(index db = None \<longrightarrow>
      (\<exists>idx'. index (snd (add_documents db e cks md)) = Some idx' \<and> d idx' = embedding_dimension db))
   \<and> (int (ncols e) \<noteq> index_dimension db \<longrightarrow>
        fst (add_documents db e cks md) = Some AssertionError
        \<and> vector_count (snd (add_documents db e cks md)) = vector_count db
        \<and> chunks (snd (add_documents db e cks md)) = chunks db
        \<and> documents (snd (add_documents db e cks md)) = documents db
        \<and> index_dimension (snd (add_documents db e cks md)) = index_dimension db)"
  by (cases "index db")
     (simp_all add: add_documents_def create_index_def IndexFlatIP_def faiss_add_def
        index_dimension_def vector_count_def ntotal_def Let_def)

theorem add_documents_dimension_witness:
  "index (VectorDatabase ''p'' 4) = None
   \<and> (\<exists>idx'. index (snd (add_documents (VectorDatabase ''p'' 4) \<lparr>ncols = 4, rows = [[1, 0, 0, 0]]\<rparr>
                  [''c''] [[(''filename'', PStr ''a.pdf'')]])) = Some idx' \<and> d idx' = 4)
   \<and> int (ncols \<lparr>ncols = 8, rows = [[1, 0, 0, 0, 0, 0, 0, 0]]\<rparr>)
        \<noteq> index_dimension \<lparr>db_path = ''p'', embedding_dimension = 4,
              index = Some \<lparr>d = 4, xb = [[1, 0, 0, 0]]\<rparr>,
              documents = [[(''filename'', PStr ''a.pdf'')]], chunks = [''c'']\<rparr>
   \<and> fst (add_documents \<lparr>db_path = ''p'', embedding_dimension = 4,
              index = Some \<lparr>d = 4, xb = [[1, 0, 0, 0]]\<rparr>,
              documents = [[(''filename'', PStr ''a.pdf'')]], chunks = [''c'']\<rparr>
            \<lparr>ncols = 8, rows = [[1, 0, 0, 0, 0, 0, 0, 0]]\<rparr> [''e''] [[(''filename'', PStr ''b.pdf'')]])
        = Some AssertionError
   \<and> vector_count (snd (add_documents \<lparr>db_path = ''p'', embedding_dimension = 4,
              index = Some \<lparr>d = 4, xb = [[1, 0, 0, 0]]\<rparr>,
              documents = [[(''filename'', PStr ''a.pdf'')]], chunks = [''c'']\<rparr>
            \<lparr>ncols = 8, rows = [[1, 0, 0, 0, 0, 0, 0, 0]]\<rparr> [''e''] [[(''filename'', PStr ''b.pdf'')]]))
        = 1"
proof -
  let ?db1 = "\<lparr>db_path = ''p'', embedding_dimension = 4,
              index = Some \<lparr>d = 4, xb = [[1, 0, 0, 0]]\<rparr>,
              documents = [[(''filename'', PStr ''a.pdf'')]], chunks = [''c'']\<rparr>"
  have h1: "index (VectorDatabase ''p'' 4) = None"
    by (simp add: VectorDatabase_def)
  have h2: "int (ncols \<lparr>ncols = 8, rows = [[1, 0, 0, 0, 0, 0, 0, 0]]\<rparr>) \<noteq> index_dimension ?db1"
    by (simp add: index_dimension_def)
  have vc: "vector_count ?db1 = 1"
    by (simp add: vector_count_def ntotal_def)
  have emb: "embedding_dimension (VectorDatabase ''p'' 4) = 4"
    by (simp add: VectorDatabase_def)
  from add_documents_dimension [of "VectorDatabase ''p'' 4" "\<lparr>ncols = 4, rows = [[1, 0, 0, 0]]\<rparr>"
      "[''c'']" "[[(''filename'', PStr ''a.pdf'')]]"] h1 emb
  have first: "\<exists>idx'. index (snd (add_documents (VectorDatabase ''p'' 4) \<lparr>ncols = 4, rows = [[1, 0, 0, 0]]\<rparr>
                  [''c''] [[(''filename'', PStr ''a.pdf'')]])) = Some idx' \<and> d idx' = 4"
    by simp
  from add_documents_dimension [of ?db1 "\<lparr>ncols = 8, rows = [[1, 0, 0, 0, 0, 0, 0, 0]]\<rparr>"
      "[''e'']" "[[(''filename'', PStr ''b.pdf'')]]"] h2 vc
  have second: "fst (add_documents ?db1 \<lparr>ncols = 8, rows = [[1, 0, 0, 0, 0, 0, 0, 0]]\<rparr> [''e'']
                  [[(''filename'', PStr ''b.pdf'')]]) = Some AssertionError
      \<and> vector_count (snd (add_documents ?db1 \<lparr>ncols = 8, rows = [[1, 0, 0, 0, 0, 0, 0, 0]]\<rparr> [''e'']
                  [[(''filename'', PStr ''b.pdf'')]])) = 1"
    by simp
  from h1 first h2 second show ?thesis by blast
qed

subsection \<open>load\<close>

text \<open>
  Claim C2 as stated fails: \<open>load\<close> assigns the index before it reads the other two files
  and nothing is rolled back. With a readable vector file and an unreadable header, \<open>load\<close>
  on a fresh instance returns \<open>False\<close> and leaves the index populated.
\<close>

theorem load_failure_counterexample:
  "load (\<lambda>p. \<lparr>index_file = Content \<lparr>d = 2, xb = [[1, 0]]\<rparr>, metadata_file = Unreadable,
               chunks_file = Content \<lparr>pk_chunks = Some [''c''],
                                      pk_documents = Some [[(''filename'', PStr ''a.pdf'')]]\<rparr>\<rparr>)
        (VectorDatabase ''p'' 2)
     = (False, \<lparr>db_path = ''p'', embedding_dimension = 2, index = Some \<lparr>d = 2, xb = [[1, 0]]\<rparr>,
                documents = [], chunks = []\<rparr>)"
  by (simp add: load_def exists_file_def VectorDatabase_def)

text \<open>
  The dimension stored in the header is never compared with the index: a header that
  records dimension 999 beside an index of dimension 2 loads with success.
\<close>

lemma load_ignores_header_dimension:
  "load (\<lambda>p. \<lparr>index_file = Content \<lparr>d = 2, xb = [[1, 0]]\<rparr>,
               metadata_file = Content [(''total_documents'', PInt 1), (''total_chunks'', PInt 1),
                                        (''embedding_dimension'', PInt 999)],
               chunks_file = Content \<lparr>pk_chunks = Some [''c''],
                                      pk_documents = Some [[(''filename'', PStr ''a.pdf'')]]\<rparr>\<rparr>)
        (VectorDatabase ''p'' 2)
     = (True, \<lparr>db_path = ''p'', embedding_dimension = 2, index = Some \<lparr>d = 2, xb = [[1, 0]]\<rparr>,
               documents = [[(''filename'', PStr ''a.pdf'')]], chunks = [''c'']\<rparr>)"
  by (simp add: load_def exists_file_def VectorDatabase_def getitem_def)

text \<open>
  Claim C2, as the code has it. \<open>load\<close> returns \<open>True\<close> exactly when all three files are read,
  the chunk store has its entries \<open>chunks\<close> and \<open>documents\<close> and the header has its counters
  \<open>total_documents\<close> and \<open>total_chunks\<close>, whatever dimension the header records; the state
  then holds the index, chunks and metadata of the files. Every other load returns \<open>False\<close>
  and rolls nothing back, so the state keeps what was assigned before the failure:
  \<^item> a file is missing, or the vector file cannot be read: the state is what it was before
    the call;
  \<^item> the header or the chunk store cannot be read, or the chunk store has no entry
    \<open>chunks\<close>: the index is replaced by the one read, chunks and metadata are unchanged;
  \<^item> the chunk store has no entry \<open>documents\<close>: the index and the chunks are replaced, the
    metadata is unchanged;
  \<^item> the header has no \<open>total_documents\<close> or no \<open>total_chunks\<close>: index, chunks and metadata
    are all replaced.
\<close>

theorem load_failure:
  "(\<not> (exists_file (index_file (fs (db_path db))) \<and> exists_file (metadata_file (fs (db_path db)))
        \<and> exists_file (chunks_file (fs (db_path db)))) \<longrightarrow> load fs db = (False, db))
   \<and> (index_file (fs (db_path db)) = Unreadable \<longrightarrow> load fs db = (False, db))
   \<and> (\<forall>idx. index_file (fs (db_path db)) = Content idx
          \<and> exists_file (metadata_file (fs (db_path db)))
          \<and> exists_file (chunks_file (fs (db_path db)))
          \<and> (metadata_file (fs (db_path db)) = Unreadable \<or> chunks_file (fs (db_path db)) = Unreadable)
        \<longrightarrow> load fs db = (False, db\<lparr>index := Some idx\<rparr>))
   \<and> (\<forall>idx header data.
          index_file (fs (db_path db)) = Content idx
          \<and> metadata_file (fs (db_path db)) = Content header
          \<and> chunks_file (fs (db_path db)) = Content data
          \<and> pk_chunks data = None
        \<longrightarrow> load fs db = (False, db\<lparr>index := Some idx\<rparr>))
   \<and> (\<forall>idx header data cs.
          index_file (fs (db_path db)) = Content idx
          \<and> metadata_file (fs (db_path db)) = Content header
          \<and> chunks_file (fs (db_path db)) = Content data
          \<and> pk_chunks data = Some cs \<and> pk_documents data = None
        \<longrightarrow> load fs db = (False, db\<lparr>index := Some idx, chunks := cs\<rparr>))
   \<and> (\<forall>idx header data cs ds.
          index_file (fs (db_path db)) = Content idx
          \<and> metadata_file (fs (db_path db)) = Content header
          \<and> chunks_file (fs (db_path db)) = Content data
          \<and> pk_chunks data = Some cs \<and> pk_documents data = Some ds
          \<and> (getitem header ''total_documents'' = Inl KeyError
               \<or> getitem header ''total_chunks'' = Inl KeyError)
        \<longrightarrow> load fs db = (False, db\<lparr>index := Some idx, chunks := cs, documents := ds\<rparr>))
   \<and> (\<forall>idx header data cs ds td tc.
          index_file (fs (db_path db)) = Content idx
          \<and> metadata_file (fs (db_path db)) = Content header
          \<and> chunks_file (fs (db_path db)) = Content data
          \<and> pk_chunks data = Some cs \<and> pk_documents data = Some ds
          \<and> getitem header ''total_documents'' = Inr td \<and> getitem header ''total_chunks'' = Inr tc
        \<longrightarrow> load fs db = (True, db\<lparr>index := Some idx, chunks := cs, documents := ds\<rparr>))
   \<and> (fst (load fs db) \<longleftrightarrow>
        (\<exists>idx header data cs ds td tc.
          index_file (fs (db_path db)) = Content idx
          \<and> metadata_file (fs (db_path db)) = Content header
          \<and> chunks_file (fs (db_path db)) = Content data
          \<and> pk_chunks data = Some cs \<and> pk_documents data = Some ds
          \<and> getitem header ''total_documents'' = Inr td \<and> getitem header ''total_chunks'' = Inr tc))"
  by (auto simp: load_def exists_file_def Let_def split: artifact.splits option.splits sum.splits)

theorem load_failure_witness:
  "index_file ((\<lambda>p. \<lparr>index_file = Content \<lparr>d = 2, xb = [[1, 0]]\<rparr>,
            metadata_file = Content [(''total_chunks'', PInt 1)],
            chunks_file = Content \<lparr>pk_chunks = Some [''c''],
                                   pk_documents = Some [[(''filename'', PStr ''a.pdf'')]]\<rparr>\<rparr>)
          (db_path (VectorDatabase ''p'' 2))) = Content \<lparr>d = 2, xb = [[1, 0]]\<rparr>
   \<and> getitem [(''total_chunks'', PInt 1)] ''total_documents'' = Inl KeyError
   \<and> load (\<lambda>p. \<lparr>index_file = Content \<lparr>d = 2, xb = [[1, 0]]\<rparr>,
            metadata_file = Content [(''total_chunks'', PInt 1)],
            chunks_file = Content \<lparr>pk_chunks = Some [''c''],
                                   pk_documents = Some [[(''filename'', PStr ''a.pdf'')]]\<rparr>\<rparr>)
          (VectorDatabase ''p'' 2)
       = (False, \<lparr>db_path = ''p'', embedding_dimension = 2,
                  index = Some \<lparr>d = 2, xb = [[1, 0]]\<rparr>,
                  documents = [[(''filename'', PStr ''a.pdf'')]], chunks = [''c'']\<rparr>)
   \<and> metadata_file ((\<lambda>p. \<lparr>index_file = Content \<lparr>d = 2, xb = [[1, 0]]\<rparr>,
            metadata_file = Missing, chunks_file = Unreadable\<rparr>)
          (db_path (VectorDatabase ''p'' 2))) = Missing
   \<and> load (\<lambda>p. \<lparr>index_file = Content \<lparr>d = 2, xb = [[1, 0]]\<rparr>,
            metadata_file = Missing, chunks_file = Unreadable\<rparr>) (VectorDatabase ''p'' 2)
       = (False, VectorDatabase ''p'' 2)"
proof -
  let ?fsA = "\<lambda>p::string. \<lparr>index_file = Content \<lparr>d = 2, xb = [[1, 0]]\<rparr>,
            metadata_file = Content [(''total_chunks'', PInt 1)],
            chunks_file = Content \<lparr>pk_chunks = Some [''c''],
                                   pk_documents = Some [[(''filename'', PStr ''a.pdf'')]]\<rparr>\<rparr>"
  let ?fsB = "\<lambda>p::string. \<lparr>index_file = Content \<lparr>d = 2, xb = [[1, 0]]\<rparr>,
            metadata_file = Missing, chunks_file = Unreadable\<rparr>"
  have k: "getitem [(''total_chunks'', PInt 1)] ''total_documents'' = Inl KeyError"
    by (simp add: getitem_def)
  have a: "load ?fsA (VectorDatabase ''p'' 2)
       = (False, \<lparr>db_path = ''p'', embedding_dimension = 2,
                  index = Some \<lparr>d = 2, xb = [[1, 0]]\<rparr>,
                  documents = [[(''filename'', PStr ''a.pdf'')]], chunks = [''c'']\<rparr>)"
    using load_failure [of ?fsA "VectorDatabase ''p'' 2"] k
    by (simp add: VectorDatabase_def)
  have b: "load ?fsB (VectorDatabase ''p'' 2) = (False, VectorDatabase ''p'' 2)"
    using load_failure [of ?fsB "VectorDatabase ''p'' 2"]
    by (simp add: exists_file_def)
  from k a b show ?thesis by simp
qed

subsection \<open>save followed by load\<close>

text \<open>
  Claim C8 as stated fails: the dimension reported by \<open>get_stats\<close> is the one the instance
  was constructed with, and \<open>load\<close> does not restore it from the header. A database of
  dimension 2, saved and then loaded by a fresh instance constructed with the default
  dimension 384, reports 384.
\<close>

theorem save_load_roundtrip_counterexample:
  "get_stats \<lparr>db_path = ''p'', embedding_dimension = 2, index = Some \<lparr>d = 2, xb = [[1, 0]]\<rparr>,
          documents = [[(''filename'', PStr ''a.pdf'')]], chunks = [''c'']\<rparr>
     = Inr (Stats 1 1 1 2 ''p'')
   \<and> fst (load (snd (save \<lparr>db_path = ''p'', embedding_dimension = 2,
                 index = Some \<lparr>d = 2, xb = [[1, 0]]\<rparr>,
                 documents = [[(''filename'', PStr ''a.pdf'')]], chunks = [''c'']\<rparr>
               (\<lambda>p. \<lparr>index_file = Missing, metadata_file = Missing, chunks_file = Missing\<rparr>)))
             (VectorDatabase ''p'' 384)) = True
   \<and> get_stats (snd (load (snd (save \<lparr>db_path = ''p'', embedding_dimension = 2,
                 index = Some \<lparr>d = 2, xb = [[1, 0]]\<rparr>,
                 documents = [[(''filename'', PStr ''a.pdf'')]], chunks = [''c'']\<rparr>
               (\<lambda>p. \<lparr>index_file = Missing, metadata_file = Missing, chunks_file = Missing\<rparr>)))
             (VectorDatabase ''p'' 384)))
     = Inr (Stats 1 1 1 384 ''p'')"
  by (simp add: get_stats_def count_unique_docs_def getitem_def ntotal_def save_def load_def
        exists_file_def VectorDatabase_def Let_def)

text \<open>
  Claim C8, as the code has it. For every state with an index whose \<open>save\<close> succeeds,
  \<open>load\<close> on a fresh instance with the same path succeeds and yields the same chunks in the
  same order, the same metadata and the same index; \<open>get_stats\<close> of the loaded instance is
  identical to that of the original exactly when the fresh instance was constructed with
  the same \<open>embedding_dimension\<close>.
\<close>

theorem save_load_roundtrip:
  assumes "index db = Some idx" and "save db fs = (None, fs')"
  shows "\<exists>db' st. load fs' (VectorDatabase (db_path db) dimension) = (True, db')
           \<and> chunks db' = chunks db \<and> documents db' = documents db \<and> index db' = index db
           \<and> get_stats db = Inr st
           \<and> (get_stats db' = get_stats db \<longleftrightarrow> dimension = embedding_dimension db)"
proof -
  from assms obtain n where n: "count_unique_docs (documents db) = Inr n"
    by (cases "count_unique_docs (documents db)") (auto simp: save_def Let_def)
  let ?header = "[(''total_documents'', PInt (int n)),
                  (''total_chunks'', PInt (int (length (chunks db)))),
                  (''embedding_dimension'', PInt (embedding_dimension db))]"
  from assms n have dir:
    "fs' (db_path db) = (fs (db_path db))\<lparr>index_file := Content idx, metadata_file := Content ?header,
        chunks_file := Content \<lparr>pk_chunks = Some (chunks db), pk_documents = Some (documents db)\<rparr>\<rparr>"
    by (auto simp: save_def Let_def)
  let ?db' = "\<lparr>db_path = db_path db, embedding_dimension = dimension, index = Some idx,
               documents = documents db, chunks = chunks db\<rparr>"
  have "load fs' (VectorDatabase (db_path db) dimension) = (True, ?db')"
    by (simp add: load_def VectorDatabase_def dir exists_file_def getitem_def)
  moreover have "get_stats db = Inr (Stats n (length (chunks db)) (ntotal idx) (embedding_dimension db) (db_path db))"
    using assms n by (simp add: get_stats_def)
  moreover have "get_stats ?db' = Inr (Stats n (length (chunks db)) (ntotal idx) dimension (db_path db))"
    using n by (simp add: get_stats_def)
  ultimately show ?thesis using assms by auto
qed

theorem save_load_roundtrip_witness:
  "index \<lparr>db_path = ''p'', embedding_dimension = 2, index = Some \<lparr>d = 2, xb = [[1, 0]]\<rparr>,
          documents = [[(''filename'', PStr ''a.pdf'')]], chunks = [''c'']\<rparr> = Some \<lparr>d = 2, xb = [[1, 0]]\<rparr>
   \<and> fst (save \<lparr>db_path = ''p'', embedding_dimension = 2, index = Some \<lparr>d = 2, xb = [[1, 0]]\<rparr>,
          documents = [[(''filename'', PStr ''a.pdf'')]], chunks = [''c'']\<rparr>
         (\<lambda>p. \<lparr>index_file = Missing, metadata_file = Missing, chunks_file = Missing\<rparr>)) = None
   \<and> (\<exists>db'. load (snd (save \<lparr>db_path = ''p'', embedding_dimension = 2,
                 index = Some \<lparr>d = 2, xb = [[1, 0]]\<rparr>,
                 documents = [[(''filename'', PStr ''a.pdf'')]], chunks = [''c'']\<rparr>
               (\<lambda>p. \<lparr>index_file = Missing, metadata_file = Missing, chunks_file = Missing\<rparr>)))
             (VectorDatabase ''p'' 2) = (True, db')
          \<and> chunks db' = [''c'']
          \<and> get_stats db' = Inr (Stats 1 1 1 2 ''p''))"
proof -
  let ?db = "\<lparr>db_path = ''p'', embedding_dimension = 2, index = Some \<lparr>d = 2, xb = [[1, 0]]\<rparr>,
          documents = [[(''filename'', PStr ''a.pdf'')]], chunks = [''c'']\<rparr>"
  let ?fs = "\<lambda>p::string. \<lparr>index_file = Missing, metadata_file = Missing, chunks_file = Missing\<rparr>"
  have h1: "index ?db = Some \<lparr>d = 2, xb = [[1, 0]]\<rparr>" by simp
  have cnt: "count_unique_docs [[(''filename'', PStr ''a.pdf'')]] = Inr 1"
    by (simp add: count_unique_docs_def getitem_def)
  have h2: "fst (save ?db ?fs) = None"
    by (simp add: save_def cnt Let_def)
  then have h2': "save ?db ?fs = (None, snd (save ?db ?fs))"
    by (metis prod.collapse)
  have st: "get_stats ?db = Inr (Stats 1 1 1 2 ''p'')"
    by (simp add: get_stats_def cnt ntotal_def)
  from save_load_roundtrip [OF h1 h2', of 2] st
  have "\<exists>db'. load (snd (save ?db ?fs)) (VectorDatabase ''p'' 2) = (True, db')
          \<and> chunks db' = [''c''] \<and> get_stats db' = Inr (Stats 1 1 1 2 ''p'')"
    by auto
  with h1 h2 show ?thesis by blast
qed


end
